theory Spec2Isabelle
  imports Complex_Main
begin

section \<open>The scroll-pinned phase animation of \<open>client/src/pages/home.tsx\<close>\<close>

text \<open>
  The page maps the scroll progress of a pinned section to the opacity and the vertical
  offset of the section's content. A JavaScript \<open>number\<close> is modelled as a \<^typ>\<open>real\<close>:
  the decimal constants are the exact decimals and the arithmetic is exact. No division
  of the program has a zero divisor under the constant \<open>TIMINGS\<close>; the one place where
  other thresholds could give one is noted at \<open>phaseOpacityWith\<close>.
\<close>

subsection \<open>Thresholds and the progress mapper (lines 11 to 34)\<close>

record PinTimings =
  fadeInEnd :: real
  holdEnd :: real
  fadeOutEnd :: real

definition TIMINGS :: PinTimings where
  "TIMINGS = \<lparr>fadeInEnd = 0.2, holdEnd = 0.7, fadeOutEnd = 0.9\<rparr>"

definition clamp01 :: "real \<Rightarrow> real" where
  "clamp01 n = min 1 (max 0 n)"

text \<open>
  The body of \<open>phaseOpacity\<close>, with the module constant it reads passed as the argument
  \<open>tm\<close>. The branches and their order are those of the source. With \<open>fadeInEnd tm = 0\<close> and
  a clamped progress of \<open>0\<close> the source divides zero by zero (a NaN), which a real cannot
  show; every use below has \<open>fadeInEnd tm \<noteq> 0\<close>. The divisor of the third branch is
  positive whenever that branch is reached.
\<close>

definition phaseOpacityWith :: "PinTimings \<Rightarrow> real \<Rightarrow> real" where
  "phaseOpacityWith tm progress =
     (let p = clamp01 progress in
      if p \<le> fadeInEnd tm then p / fadeInEnd tm
      else if p \<le> holdEnd tm then 1
      else if p \<le> fadeOutEnd tm
        then 1 - (p - holdEnd tm) / (fadeOutEnd tm - holdEnd tm)
      else 0)"

definition phaseOpacity :: "real \<Rightarrow> real" where
  "phaseOpacity progress = phaseOpacityWith TIMINGS progress"

text \<open>
  The reference definition of the specification, in its own words and with the default
  thresholds written as decimals. It is compared with \<open>phaseOpacity\<close> below.
\<close>

definition phaseOpacity_spec :: "real \<Rightarrow> real" where
  "phaseOpacity_spec p =
     (if p \<le> 0.2 then p / 0.2
      else if p \<le> 0.7 then 1
      else if p \<le> 0.9 then 1 - (p - 0.7) / 0.2
      else 0)"

text \<open>The ordering that the specification requires of a \<open>PinTimings\<close> value.\<close>

definition timingsOrdered :: "PinTimings \<Rightarrow> bool" where
  "timingsOrdered tm \<longleftrightarrow>
     0 < fadeInEnd tm \<and> fadeInEnd tm < holdEnd tm \<and> holdEnd tm < fadeOutEnd tm \<and> fadeOutEnd tm \<le> 1"

subsection \<open>Registering a pinned section (lines 59 to 89)\<close>





subsection \<open>The progress callbacks of the sections\<close>

text \<open>
  The two style properties that the callbacks write: the opacity, and the pixels of the
  \<open>translateY\<close> transform (\<open>0\<close> for an element without a transform). An element
  reference that is still empty is \<open>None\<close>, and the callbacks skip it as the source does.
\<close>

record style =
  opacity :: real
  translateY :: real

text \<open>\<open>PinnedHero\<close> (lines 99 to 105) and \<open>PinnedDiamondReveal\<close> (lines 144 to 150).\<close>

definition heroOnUpdate :: "real \<Rightarrow> style option \<Rightarrow> style option" where
  "heroOnUpdate p contentRef =
     (let opacity' = phaseOpacity p in
      case contentRef of
        None \<Rightarrow> None
      | Some s \<Rightarrow> Some (s\<lparr>opacity := opacity', translateY := (1 - opacity') * 10\<rparr>))"

definition diamondOnUpdate :: "real \<Rightarrow> style option \<Rightarrow> style option" where
  "diamondOnUpdate p stageRef =
     (let opacity' = phaseOpacity p in
      case stageRef of
        None \<Rightarrow> None
      | Some s \<Rightarrow> Some (s\<lparr>opacity := opacity', translateY := (1 - opacity') * 10\<rparr>))"

text \<open>
  The index of the active item among \<open>n\<close> items. The three multi-item sections compute it
  with the same two lines (231 and 232, 308 and 309, 387 and 388), where \<open>n\<close> is the
  length of the section's array of lines, images or blocks.
\<close>

definition activeIndex :: "nat \<Rightarrow> real \<Rightarrow> int" where
  "activeIndex n p =
     (let t = clamp01 ((p - 0.2) / 0.5) in
      min (int n - 1) \<lfloor>t * real n\<rfloor>)"

text \<open>\<open>PinnedStory\<close> (lines 228 to 241): \<open>forEach\<close> over the line elements with their index.\<close>

definition storyOnUpdate :: "nat \<Rightarrow> real \<Rightarrow> style option list \<Rightarrow> style option list" where
  "storyOnUpdate n p linesRef =
     (let opacity' = phaseOpacity p;
          idx = activeIndex n p in
      map (\<lambda>(i, node).
             case node of
               None \<Rightarrow> None
             | Some s \<Rightarrow>
                 (let active = (int i = idx);
                      o' = (if active then opacity' else 0) in
                  Some (s\<lparr>opacity := o', translateY := (if active then 0 else 10)\<rparr>)))
          (enumerate 0 linesRef))"

text \<open>\<open>PinnedAIGeneratedVisuals\<close> (lines 305 to 316): only the opacity is written.\<close>

definition visualsOnUpdate :: "nat \<Rightarrow> real \<Rightarrow> style option list \<Rightarrow> style option list" where
  "visualsOnUpdate n p imagesRef =
     (let opacity' = phaseOpacity p;
          idx = activeIndex n p in
      map (\<lambda>(i, img).
             case img of
               None \<Rightarrow> None
             | Some s \<Rightarrow>
                 (let active = (int i = idx) in
                  Some (s\<lparr>opacity := (if active then opacity' else 0)\<rparr>)))
          (enumerate 0 imagesRef))"

text \<open>\<open>PinnedCraftsmanship\<close> (lines 384 to 396).\<close>

definition craftOnUpdate :: "nat \<Rightarrow> real \<Rightarrow> style option list \<Rightarrow> style option list" where
  "craftOnUpdate n p blocksRef =
     (let opacity' = phaseOpacity p;
          idx = activeIndex n p in
      map (\<lambda>(i, node).
             case node of
               None \<Rightarrow> None
             | Some s \<Rightarrow>
                 (let active = (int i = idx) in
                  Some (s\<lparr>opacity := (if active then opacity' else 0),
                          translateY := (if active then 0 else 10)\<rparr>)))
          (enumerate 0 blocksRef))"

text \<open>
  The styles that the markup gives the elements before any callback runs: the lines and
  cards start transparent and shifted by ten pixels, the images start transparent.
\<close>

definition initialLineStyle :: style where
  "initialLineStyle = \<lparr>opacity = 0, translateY = 10\<rparr>"

definition initialImageStyle :: style where
  "initialImageStyle = \<lparr>opacity = 0, translateY = 0\<rparr>"

section \<open>Properties\<close>

subsection \<open>Helper facts\<close>

lemma clamp01_range: "0 \<le> clamp01 x \<and> clamp01 x \<le> 1"
  by (simp add: clamp01_def)

lemma clamp01_idem: "clamp01 (clamp01 x) = clamp01 x"
  by (simp add: clamp01_def)

lemma clamp01_id: "0 \<le> x \<Longrightarrow> x \<le> 1 \<Longrightarrow> clamp01 x = x"
  by (simp add: clamp01_def)

lemma phaseOpacity_unfold:
  "phaseOpacity x =
     (if clamp01 x \<le> 0.2 then clamp01 x / 0.2
      else if clamp01 x \<le> 0.7 then 1
      else if clamp01 x \<le> 0.9 then 1 - (clamp01 x - 0.7) / 0.2
      else 0)"
  by (simp add: phaseOpacity_def phaseOpacityWith_def TIMINGS_def Let_def)

lemma phaseOpacity_bounds: "0 \<le> phaseOpacity x \<and> phaseOpacity x \<le> 1"
  using clamp01_range [of x] by (simp add: phaseOpacity_unfold)

lemma phaseOpacity_hold: "0.2 \<le> p \<Longrightarrow> p \<le> 0.7 \<Longrightarrow> phaseOpacity p = 1"
  by (simp add: phaseOpacity_unfold clamp01_def)

lemma activeIndex_unfold:
  "activeIndex n p = min (int n - 1) \<lfloor>clamp01 ((p - 0.2) / 0.5) * real n\<rfloor>"
  by (simp add: activeIndex_def Let_def)

lemma activeIndex_low:
  assumes "0 < n" and "p \<le> 0.2"
  shows "activeIndex n p = 0"
proof -
  have "(p - 0.2) / 0.5 \<le> 0" using assms(2) by simp
  then have "clamp01 ((p - 0.2) / 0.5) = 0" by (simp add: clamp01_def)
  with assms(1) show ?thesis by (simp add: activeIndex_unfold)
qed

lemma activeIndex_high:
  assumes "0.7 \<le> p"
  shows "activeIndex n p = int n - 1"
proof -
  have "1 \<le> (p - 0.2) / 0.5" using assms by simp
  then have "clamp01 ((p - 0.2) / 0.5) = 1" by (simp add: clamp01_def)
  then show ?thesis by (simp add: activeIndex_unfold)
qed

lemma activeIndex_range:
  assumes "0 < n"
  shows "0 \<le> activeIndex n p \<and> activeIndex n p \<le> int n - 1"
proof -
  have "0 \<le> clamp01 ((p - 0.2) / 0.5) * real n"
    using clamp01_range [of "(p - 0.2) / 0.5"] by simp
  then have "0 \<le> \<lfloor>clamp01 ((p - 0.2) / 0.5) * real n\<rfloor>" by simp
  with assms show ?thesis by (simp add: activeIndex_unfold)
qed

lemma storyOnUpdate_nth:
  "i < length ss \<Longrightarrow>
   storyOnUpdate n p (map Some ss) ! i =
     Some ((ss ! i)\<lparr>opacity := (if int i = activeIndex n p then phaseOpacity p else 0),
                    translateY := (if int i = activeIndex n p then 0 else 10)\<rparr>)"
  by (simp add: storyOnUpdate_def Let_def nth_enumerate_eq)

lemma craftOnUpdate_nth:
  "i < length ss \<Longrightarrow>
   craftOnUpdate n p (map Some ss) ! i =
     Some ((ss ! i)\<lparr>opacity := (if int i = activeIndex n p then phaseOpacity p else 0),
                    translateY := (if int i = activeIndex n p then 0 else 10)\<rparr>)"
  by (simp add: craftOnUpdate_def Let_def nth_enumerate_eq)

lemma visualsOnUpdate_nth:
  "i < length ss \<Longrightarrow>
   visualsOnUpdate n p (map Some ss) ! i =
     Some ((ss ! i)\<lparr>opacity := (if int i = activeIndex n p then phaseOpacity p else 0)\<rparr>)"
  by (simp add: visualsOnUpdate_def Let_def nth_enumerate_eq)

subsection \<open>The phase function\<close>

text \<open>
  Claim C1. On the progress range from 0 to 1, \<open>phaseOpacity\<close> is the piecewise-linear
  reference function of the specification for the thresholds 0.2, 0.7 and 0.9: \<open>p / 0.2\<close>
  up to 0.2, then 1 up to 0.7, then \<open>1 - (p - 0.7) / 0.2\<close> up to 0.9, then 0. At the five
  boundary points 0, 0.2, 0.7, 0.9 and 1 its values are 0, 1, 1, 0 and 0.
\<close>

theorem phaseOpacity_refines_spec:
  "(\<forall>p. 0 \<le> p \<and> p \<le> 1 \<longrightarrow> phaseOpacity p = phaseOpacity_spec p)
   \<and> phaseOpacity 0 = 0 \<and> phaseOpacity 0.2 = 1 \<and> phaseOpacity 0.7 = 1
   \<and> phaseOpacity 0.9 = 0 \<and> phaseOpacity 1 = 0"
  by (simp add: phaseOpacity_unfold phaseOpacity_spec_def clamp01_def)

theorem phaseOpacity_refines_spec_witness:
  "(0::real) \<le> 0.8 \<and> (0.8::real) \<le> 1
   \<and> phaseOpacity 0.8 = phaseOpacity_spec 0.8 \<and> phaseOpacity_spec 0.8 = 1 / 2"
  using phaseOpacity_refines_spec [THEN conjunct1, rule_format, of "0.8"]
  by (simp add: phaseOpacity_spec_def)

text \<open>
  Claim C5. For a progress between 0 and 1 the opacity lies between 0 and 1: no branch
  of \<open>phaseOpacity\<close> overshoots or undershoots.
\<close>

theorem phaseOpacity_in_unit:
  "0 \<le> p \<Longrightarrow> p \<le> 1 \<Longrightarrow> 0 \<le> phaseOpacity p \<and> phaseOpacity p \<le> 1"
  by (rule phaseOpacity_bounds)

theorem phaseOpacity_in_unit_witness:
  "(0::real) \<le> 0.8 \<and> (0.8::real) \<le> 1 \<and> 0 \<le> phaseOpacity 0.8 \<and> phaseOpacity 0.8 \<le> 1"
  using phaseOpacity_in_unit [of "0.8"] by simp

text \<open>
  Claim C8. \<open>clamp01\<close> sends every input below 0 to 0, every input above 1 to 1, and
  leaves every input between 0 and 1 as it is.
\<close>

theorem clamp01_boundary:
  "(x < 0 \<longrightarrow> clamp01 x = 0) \<and> (1 < x \<longrightarrow> clamp01 x = 1)
   \<and> (0 \<le> x \<and> x \<le> 1 \<longrightarrow> clamp01 x = x)"
  by (simp add: clamp01_def)

theorem clamp01_boundary_witness:
  "(-3 :: real) < 0 \<and> clamp01 (-3) = 0 \<and> (1::real) < 5 \<and> clamp01 5 = 1
   \<and> (0::real) \<le> 1 / 4 \<and> (1 / 4 :: real) \<le> 1 \<and> clamp01 (1 / 4) = 1 / 4"
  using clamp01_boundary [of "-3"] clamp01_boundary [of 5] clamp01_boundary [of "1 / 4"]
  by simp

text \<open>
  Claim C9. \<open>phaseOpacity\<close> is defined for every real input, in or out of the range from
  0 to 1: it gives the same result for \<open>x\<close> as for \<open>clamp01 x\<close>, and the result always
  lies between 0 and 1.
\<close>

theorem phaseOpacity_total:
  "phaseOpacity x = phaseOpacity (clamp01 x) \<and> 0 \<le> phaseOpacity x \<and> phaseOpacity x \<le> 1"
  using phaseOpacity_bounds [of x] by (simp add: phaseOpacity_unfold clamp01_idem)

subsection \<open>The pin range\<close>


text \<open>
  Claim C6. \<open>phaseOpacity\<close> does not decrease on the stretch from 0 to 0.2, is constantly
  1 from 0.2 to 0.7, does not increase from 0.7 to 0.9, and is constantly 0 from 0.9 to 1.
\<close>

theorem phaseOpacity_monotone_pieces:
  "(\<forall>p1 p2. 0 \<le> p1 \<and> p1 \<le> p2 \<and> p2 \<le> 0.2 \<longrightarrow> phaseOpacity p1 \<le> phaseOpacity p2)
   \<and> (\<forall>p. 0.2 \<le> p \<and> p \<le> 0.7 \<longrightarrow> phaseOpacity p = 1)
   \<and> (\<forall>p1 p2. 0.7 \<le> p1 \<and> p1 \<le> p2 \<and> p2 \<le> 0.9 \<longrightarrow> phaseOpacity p2 \<le> phaseOpacity p1)
   \<and> (\<forall>p. 0.9 \<le> p \<and> p \<le> 1 \<longrightarrow> phaseOpacity p = 0)"
  by (auto simp add: phaseOpacity_unfold clamp01_def)

theorem phaseOpacity_monotone_pieces_witness:
  "(0::real) \<le> 0.05 \<and> (0.05::real) \<le> 0.1 \<and> (0.1::real) \<le> 0.2
     \<and> phaseOpacity 0.05 \<le> phaseOpacity 0.1
   \<and> (0.2::real) \<le> 0.5 \<and> (0.5::real) \<le> 0.7 \<and> phaseOpacity 0.5 = 1
   \<and> (0.7::real) \<le> 0.75 \<and> (0.75::real) \<le> 0.8 \<and> (0.8::real) \<le> 0.9
     \<and> phaseOpacity 0.8 \<le> phaseOpacity 0.75
   \<and> (0.9::real) \<le> 0.95 \<and> (0.95::real) \<le> 1 \<and> phaseOpacity 0.95 = 0"
  using phaseOpacity_monotone_pieces [THEN conjunct1, rule_format, of "0.05" "0.1"]
    phaseOpacity_monotone_pieces [THEN conjunct2, THEN conjunct1, rule_format, of "0.5"]
    phaseOpacity_monotone_pieces
      [THEN conjunct2, THEN conjunct2, THEN conjunct1, rule_format, of "0.75" "0.8"]
    phaseOpacity_monotone_pieces
      [THEN conjunct2, THEN conjunct2, THEN conjunct2, rule_format, of "0.95"]
  by simp

subsection \<open>Selecting the active item\<close>

text \<open>
  Claim C2. The active index among \<open>n\<close> items at progress \<open>p\<close> is the smaller of \<open>n - 1\<close>
  and the floor of \<open>clamp01 ((p - 0.2) / 0.5) * n\<close>. For three items it is 0 at 0.2, 1 at
  0.45 and 2 at 0.7. When every one of the \<open>n\<close> element references is attached and \<open>p\<close>
  lies between 0.2 and 0.7, exactly one item gets a nonzero opacity in each of the three
  multi-item sections: the active item gets \<open>phaseOpacity p\<close>, every other item gets 0.
\<close>

theorem activeIndex_selection:
  "activeIndex n p = min (int n - 1) \<lfloor>clamp01 ((p - 0.2) / 0.5) * real n\<rfloor>
   \<and> activeIndex 3 0.2 = 0 \<and> activeIndex 3 0.45 = 1 \<and> activeIndex 3 0.7 = 2
   \<and> (length ss = n \<and> 0 < n \<and> 0.2 \<le> p \<and> p \<le> 0.7 \<longrightarrow>
        (\<exists>k < n.
            activeIndex n p = int k
          \<and> phaseOpacity p \<noteq> 0
          \<and> (\<forall>i < n. \<exists>s1 s2 s3.
                storyOnUpdate n p (map Some ss) ! i = Some s1
              \<and> visualsOnUpdate n p (map Some ss) ! i = Some s2
              \<and> craftOnUpdate n p (map Some ss) ! i = Some s3
              \<and> opacity s1 = (if i = k then phaseOpacity p else 0)
              \<and> opacity s2 = (if i = k then phaseOpacity p else 0)
              \<and> opacity s3 = (if i = k then phaseOpacity p else 0))))"
proof (intro conjI impI)
  show "activeIndex n p = min (int n - 1) \<lfloor>clamp01 ((p - 0.2) / 0.5) * real n\<rfloor>"
    by (rule activeIndex_unfold)
  show "activeIndex 3 0.2 = 0"
    by (simp add: activeIndex_unfold clamp01_def)
  show "activeIndex 3 0.45 = 1"
    by (simp add: activeIndex_unfold clamp01_def)
  show "activeIndex 3 0.7 = 2"
    by (simp add: activeIndex_unfold clamp01_def)
next
  assume h: "length ss = n \<and> 0 < n \<and> 0.2 \<le> p \<and> p \<le> 0.7"
  from h have r: "0 \<le> activeIndex n p \<and> activeIndex n p \<le> int n - 1"
    using activeIndex_range [of n p] by simp
  define k where "k = nat (activeIndex n p)"
  from r have k: "activeIndex n p = int k"
    by (simp add: k_def)
  from r k have kl: "k < n" by linarith
  from h have one: "phaseOpacity p = 1" by (simp add: phaseOpacity_hold)
  from h have items: "\<forall>i < n. \<exists>s1 s2 s3.
                storyOnUpdate n p (map Some ss) ! i = Some s1
              \<and> visualsOnUpdate n p (map Some ss) ! i = Some s2
              \<and> craftOnUpdate n p (map Some ss) ! i = Some s3
              \<and> opacity s1 = (if i = k then phaseOpacity p else 0)
              \<and> opacity s2 = (if i = k then phaseOpacity p else 0)
              \<and> opacity s3 = (if i = k then phaseOpacity p else 0)"
    by (simp add: storyOnUpdate_nth visualsOnUpdate_nth craftOnUpdate_nth k)
  from k kl one items
  show "\<exists>k < n.
            activeIndex n p = int k
          \<and> phaseOpacity p \<noteq> 0
          \<and> (\<forall>i < n. \<exists>s1 s2 s3.
                storyOnUpdate n p (map Some ss) ! i = Some s1
              \<and> visualsOnUpdate n p (map Some ss) ! i = Some s2
              \<and> craftOnUpdate n p (map Some ss) ! i = Some s3
              \<and> opacity s1 = (if i = k then phaseOpacity p else 0)
              \<and> opacity s2 = (if i = k then phaseOpacity p else 0)
              \<and> opacity s3 = (if i = k then phaseOpacity p else 0))"
    by (intro exI [of _ k]) simp
qed

theorem activeIndex_selection_witness:
  "length [initialLineStyle, initialLineStyle, initialLineStyle] = 3
   \<and> (0::nat) < 3 \<and> (0.2::real) \<le> 0.45 \<and> (0.45::real) \<le> 0.7
   \<and> activeIndex 3 0.45 = 1
   \<and> phaseOpacity 0.45 \<noteq> 0
   \<and> (\<exists>s1. storyOnUpdate 3 0.45
               (map Some [initialLineStyle, initialLineStyle, initialLineStyle]) ! 1 = Some s1
           \<and> opacity s1 = phaseOpacity 0.45)
   \<and> (\<exists>s1. storyOnUpdate 3 0.45
               (map Some [initialLineStyle, initialLineStyle, initialLineStyle]) ! 2 = Some s1
           \<and> opacity s1 = 0)"
proof -
  let ?ss = "[initialLineStyle, initialLineStyle, initialLineStyle]"
  have hyp: "length ?ss = 3 \<and> (0::nat) < 3 \<and> (0.2::real) \<le> 0.45 \<and> (0.45::real) \<le> 0.7"
    by simp
  have idx: "activeIndex 3 0.45 = 1"
    using activeIndex_selection [of 3 "0.45" ?ss] by simp
  from activeIndex_selection [of 3 "0.45" ?ss] hyp
  obtain k where k: "k < 3" "activeIndex 3 0.45 = int k" "phaseOpacity 0.45 \<noteq> 0"
    and items: "\<forall>i < 3. \<exists>s1 s2 s3.
                storyOnUpdate 3 0.45 (map Some ?ss) ! i = Some s1
              \<and> visualsOnUpdate 3 0.45 (map Some ?ss) ! i = Some s2
              \<and> craftOnUpdate 3 0.45 (map Some ?ss) ! i = Some s3
              \<and> opacity s1 = (if i = k then phaseOpacity 0.45 else 0)
              \<and> opacity s2 = (if i = k then phaseOpacity 0.45 else 0)
              \<and> opacity s3 = (if i = k then phaseOpacity 0.45 else 0)"
    by blast
  from k(2) idx have k1: "k = 1" by simp
  from items [rule_format, of 1] k1
  have a: "\<exists>s1. storyOnUpdate 3 0.45 (map Some ?ss) ! 1 = Some s1
           \<and> opacity s1 = phaseOpacity 0.45" by auto
  from items [rule_format, of 2] k1
  have b: "\<exists>s1. storyOnUpdate 3 0.45 (map Some ?ss) ! 2 = Some s1
           \<and> opacity s1 = 0" by auto
  from hyp idx k(3) a b show ?thesis by simp
qed

text \<open>
  Claim C10. Outside the hold window the active index saturates. For at least one item,
  a progress below 0.2 selects index 0 and a progress of 0.7 or more selects index
  \<open>n - 1\<close>, and the index always lies between 0 and \<open>n - 1\<close>. With every element reference
  attached, the first item therefore carries the fade-in ramp \<open>clamp01 p / 0.2\<close> and the
  last item carries the fade-out ramp, while every other item has opacity 0.
\<close>

theorem activeIndex_saturates:
  "0 < n \<longrightarrow>
     (p < 0.2 \<longrightarrow> activeIndex n p = 0)
   \<and> (0.7 \<le> p \<longrightarrow> activeIndex n p = int n - 1)
   \<and> 0 \<le> activeIndex n p \<and> activeIndex n p \<le> int n - 1
   \<and> (length ss = n \<and> p < 0.2 \<longrightarrow>
        phaseOpacity p = clamp01 p / 0.2
      \<and> (\<forall>i < n. \<exists>s1 s2 s3.
            storyOnUpdate n p (map Some ss) ! i = Some s1
          \<and> visualsOnUpdate n p (map Some ss) ! i = Some s2
          \<and> craftOnUpdate n p (map Some ss) ! i = Some s3
          \<and> opacity s1 = (if i = 0 then phaseOpacity p else 0)
          \<and> opacity s2 = (if i = 0 then phaseOpacity p else 0)
          \<and> opacity s3 = (if i = 0 then phaseOpacity p else 0)))
   \<and> (length ss = n \<and> 0.7 \<le> p \<longrightarrow>
        phaseOpacity p = (if p \<le> 0.9 then 1 - (p - 0.7) / 0.2 else 0)
      \<and> (\<forall>i < n. \<exists>s1 s2 s3.
            storyOnUpdate n p (map Some ss) ! i = Some s1
          \<and> visualsOnUpdate n p (map Some ss) ! i = Some s2
          \<and> craftOnUpdate n p (map Some ss) ! i = Some s3
          \<and> opacity s1 = (if i = n - 1 then phaseOpacity p else 0)
          \<and> opacity s2 = (if i = n - 1 then phaseOpacity p else 0)
          \<and> opacity s3 = (if i = n - 1 then phaseOpacity p else 0)))"
proof (intro impI conjI)
  assume n: "0 < n"
  show "activeIndex n p = 0" if "p < 0.2"
    using n that by (simp add: activeIndex_low)
  show "activeIndex n p = int n - 1" if "0.7 \<le> p"
    using that by (rule activeIndex_high)
  show "0 \<le> activeIndex n p" and "activeIndex n p \<le> int n - 1"
    using activeIndex_range [OF n, of p] by simp_all
  show "phaseOpacity p = clamp01 p / 0.2" if "length ss = n \<and> p < 0.2"
    using that by (simp add: phaseOpacity_unfold clamp01_def max_def)
  show "\<forall>i < n. \<exists>s1 s2 s3.
            storyOnUpdate n p (map Some ss) ! i = Some s1
          \<and> visualsOnUpdate n p (map Some ss) ! i = Some s2
          \<and> craftOnUpdate n p (map Some ss) ! i = Some s3
          \<and> opacity s1 = (if i = 0 then phaseOpacity p else 0)
          \<and> opacity s2 = (if i = 0 then phaseOpacity p else 0)
          \<and> opacity s3 = (if i = 0 then phaseOpacity p else 0)"
    if "length ss = n \<and> p < 0.2"
    using n that
    by (simp add: storyOnUpdate_nth visualsOnUpdate_nth craftOnUpdate_nth activeIndex_low)
  show "phaseOpacity p = (if p \<le> 0.9 then 1 - (p - 0.7) / 0.2 else 0)"
    if "length ss = n \<and> 0.7 \<le> p"
    using that by (auto simp add: phaseOpacity_unfold clamp01_def min_def max_def)
  show "\<forall>i < n. \<exists>s1 s2 s3.
            storyOnUpdate n p (map Some ss) ! i = Some s1
          \<and> visualsOnUpdate n p (map Some ss) ! i = Some s2
          \<and> craftOnUpdate n p (map Some ss) ! i = Some s3
          \<and> opacity s1 = (if i = n - 1 then phaseOpacity p else 0)
          \<and> opacity s2 = (if i = n - 1 then phaseOpacity p else 0)
          \<and> opacity s3 = (if i = n - 1 then phaseOpacity p else 0)"
    if "length ss = n \<and> 0.7 \<le> p"
  proof -
    have "int i = int n - 1 \<longleftrightarrow> i = n - 1" for i using n by auto
    with that show ?thesis
      by (simp add: storyOnUpdate_nth visualsOnUpdate_nth craftOnUpdate_nth activeIndex_high)
  qed
qed


theorem activeIndex_saturates_witness:
  "(0::nat) < 3 \<and> (0.1::real) < 0.2 \<and> (0.7::real) \<le> 0.8
   \<and> length [initialImageStyle, initialImageStyle, initialImageStyle] = 3
   \<and> activeIndex 3 0.1 = 0 \<and> activeIndex 3 0.8 = 2
   \<and> phaseOpacity 0.1 = 1 / 2 \<and> phaseOpacity 0.8 = 1 / 2
   \<and> (\<exists>s2. visualsOnUpdate 3 0.1
         (map Some [initialImageStyle, initialImageStyle, initialImageStyle]) ! 0 = Some s2
         \<and> opacity s2 = 1 / 2)
   \<and> (\<exists>s2. visualsOnUpdate 3 0.8
         (map Some [initialImageStyle, initialImageStyle, initialImageStyle]) ! 2 = Some s2
         \<and> opacity s2 = 1 / 2)"
proof -
  let ?ss = "[initialImageStyle, initialImageStyle, initialImageStyle]"
  note lo = activeIndex_saturates [of 3 "0.1" ?ss, rule_format]
  note hi = activeIndex_saturates [of 3 "0.8" ?ss, rule_format]
  have n: "(0::nat) < 3" and len: "length ?ss = 3" by simp_all
  have p1: "(0.1::real) < 0.2" and p2: "(0.7::real) \<le> 0.8" by simp_all
  from lo n p1 have i1: "activeIndex 3 0.1 = 0" by blast
  from hi n p2 have i2: "activeIndex 3 0.8 = 2" by simp
  from lo n len p1 have o1: "phaseOpacity 0.1 = clamp01 0.1 / 0.2" by blast
  then have o1': "phaseOpacity 0.1 = 1 / 2" by (simp add: clamp01_def)
  from hi n len p2 have o2: "phaseOpacity 0.8 = (if (0.8::real) \<le> 0.9 then 1 - (0.8 - 0.7) / 0.2 else 0)"
    by blast
  then have o2': "phaseOpacity 0.8 = 1 / 2" by simp
  from lo n len p1 have "\<forall>i < 3. \<exists>s1 s2 s3.
            storyOnUpdate 3 0.1 (map Some ?ss) ! i = Some s1
          \<and> visualsOnUpdate 3 0.1 (map Some ?ss) ! i = Some s2
          \<and> craftOnUpdate 3 0.1 (map Some ?ss) ! i = Some s3
          \<and> opacity s1 = (if i = 0 then phaseOpacity 0.1 else 0)
          \<and> opacity s2 = (if i = 0 then phaseOpacity 0.1 else 0)
          \<and> opacity s3 = (if i = 0 then phaseOpacity 0.1 else 0)" by blast
  from this [rule_format, of 0] o1'
  have a: "\<exists>s2. visualsOnUpdate 3 0.1 (map Some ?ss) ! 0 = Some s2 \<and> opacity s2 = 1 / 2"
    by auto
  from hi n len p2 have "\<forall>i < 3. \<exists>s1 s2 s3.
            storyOnUpdate 3 0.8 (map Some ?ss) ! i = Some s1
          \<and> visualsOnUpdate 3 0.8 (map Some ?ss) ! i = Some s2
          \<and> craftOnUpdate 3 0.8 (map Some ?ss) ! i = Some s3
          \<and> opacity s1 = (if i = 3 - 1 then phaseOpacity 0.8 else 0)
          \<and> opacity s2 = (if i = 3 - 1 then phaseOpacity 0.8 else 0)
          \<and> opacity s3 = (if i = 3 - 1 then phaseOpacity 0.8 else 0)" by blast
  from this [rule_format, of 2] o2'
  have b: "\<exists>s2. visualsOnUpdate 3 0.8 (map Some ?ss) ! 2 = Some s2 \<and> opacity s2 = 1 / 2"
    by auto
  from n len p1 p2 i1 i2 o1' o2' a b show ?thesis by blast
qed

subsection \<open>The vertical offset\<close>

text \<open>
  Claim C3, as stated: in every pinned section the vertical offset of a target is
  \<open>(1 - opacity) * 10\<close> for the opacity given to that target. It fails in the story
  section: at progress 0.1 the first line is active with opacity one half, and its
  offset is 0 where the claim asks for 5.
\<close>

theorem story_offset_counterexample:
  "storyOnUpdate 3 0.1 [Some initialLineStyle, Some initialLineStyle, Some initialLineStyle] ! 0
     = Some \<lparr>opacity = 1 / 2, translateY = 0\<rparr>
   \<and> translateY \<lparr>opacity = 1 / 2, translateY = 0\<rparr>
       \<noteq> (1 - opacity \<lparr>opacity = 1 / 2, translateY = 0\<rparr>) * 10"
  by (simp add: storyOnUpdate_def activeIndex_unfold phaseOpacity_unfold clamp01_def
      initialLineStyle_def Let_def)

text \<open>
  Claim C3, amended. In the hero and diamond sections the offset is \<open>(1 - opacity) * 10\<close>
  for every progress. In the story and craftsmanship sections the offset is 0 for the
  active item, whatever its opacity, and 10 for every other item, whose opacity is 0, so
  that \<open>(1 - opacity) * 10\<close> holds for the inactive items. The image section writes the
  opacity only and leaves the offset of each image as it was.
\<close>

theorem section_offsets:
  "(\<exists>s'. heroOnUpdate p (Some s) = Some s'
        \<and> opacity s' = phaseOpacity p \<and> translateY s' = (1 - opacity s') * 10)
   \<and> (\<exists>s'. diamondOnUpdate p (Some s) = Some s'
        \<and> opacity s' = phaseOpacity p \<and> translateY s' = (1 - opacity s') * 10)
   \<and> (\<forall>i < length ss. \<exists>s1 s2 s3.
          storyOnUpdate n p (map Some ss) ! i = Some s1
        \<and> craftOnUpdate n p (map Some ss) ! i = Some s2
        \<and> visualsOnUpdate n p (map Some ss) ! i = Some s3
        \<and> opacity s1 = (if int i = activeIndex n p then phaseOpacity p else 0)
        \<and> translateY s1 = (if int i = activeIndex n p then 0 else 10)
        \<and> opacity s2 = (if int i = activeIndex n p then phaseOpacity p else 0)
        \<and> translateY s2 = (if int i = activeIndex n p then 0 else 10)
        \<and> opacity s3 = (if int i = activeIndex n p then phaseOpacity p else 0)
        \<and> translateY s3 = translateY (ss ! i)
        \<and> (int i \<noteq> activeIndex n p \<longrightarrow>
              translateY s1 = (1 - opacity s1) * 10 \<and> translateY s2 = (1 - opacity s2) * 10))"
  by (simp add: heroOnUpdate_def diamondOnUpdate_def Let_def
      storyOnUpdate_nth craftOnUpdate_nth visualsOnUpdate_nth)

theorem section_offsets_witness:
  "(1::nat) < length [initialLineStyle, initialLineStyle, initialLineStyle]
   \<and> int 1 \<noteq> activeIndex 3 0.1
   \<and> (\<exists>s1. storyOnUpdate 3 0.1
         (map Some [initialLineStyle, initialLineStyle, initialLineStyle]) ! 1 = Some s1
         \<and> opacity s1 = 0 \<and> translateY s1 = 10 \<and> translateY s1 = (1 - opacity s1) * 10)"
proof -
  let ?ss = "[initialLineStyle, initialLineStyle, initialLineStyle]"
  have len: "(1::nat) < length ?ss" by simp
  have idx: "activeIndex 3 0.1 = 0" by (simp add: activeIndex_unfold clamp01_def)
  from section_offsets [of "0.1" initialLineStyle ?ss 3]
  have "\<forall>i < length ?ss. \<exists>s1 s2 s3.
          storyOnUpdate 3 0.1 (map Some ?ss) ! i = Some s1
        \<and> craftOnUpdate 3 0.1 (map Some ?ss) ! i = Some s2
        \<and> visualsOnUpdate 3 0.1 (map Some ?ss) ! i = Some s3
        \<and> opacity s1 = (if int i = activeIndex 3 0.1 then phaseOpacity 0.1 else 0)
        \<and> translateY s1 = (if int i = activeIndex 3 0.1 then 0 else 10)
        \<and> opacity s2 = (if int i = activeIndex 3 0.1 then phaseOpacity 0.1 else 0)
        \<and> translateY s2 = (if int i = activeIndex 3 0.1 then 0 else 10)
        \<and> opacity s3 = (if int i = activeIndex 3 0.1 then phaseOpacity 0.1 else 0)
        \<and> translateY s3 = translateY (?ss ! i)
        \<and> (int i \<noteq> activeIndex 3 0.1 \<longrightarrow>
              translateY s1 = (1 - opacity s1) * 10 \<and> translateY s2 = (1 - opacity s2) * 10)"
    by blast
  from this [rule_format, OF len] idx
  have "\<exists>s1. storyOnUpdate 3 0.1 (map Some ?ss) ! 1 = Some s1
         \<and> opacity s1 = 0 \<and> translateY s1 = 10 \<and> translateY s1 = (1 - opacity s1) * 10"
    by auto
  with len idx show ?thesis by simp
qed

subsection \<open>The thresholds\<close>

text \<open>
  The thresholds of the constant \<open>TIMINGS\<close>, the only ones that \<open>phaseOpacity\<close> reads, are
  in the order \<open>0 < fadeInEnd < holdEnd < fadeOutEnd \<le> 1\<close>.
\<close>

lemma TIMINGS_ordered: "timingsOrdered TIMINGS"
  by (simp add: timingsOrdered_def TIMINGS_def)

end
